theory Spec2Isabelle
  imports Complex_Main
begin

unbundle bit_operations_syntax

section \<open>The capture loop of boxing\_strike\_vision.py\<close>

text \<open>
  The program is a single Python module with three classes (\<open>VideoStream\<close>,
  \<open>FPSCounter\<close>, \<open>BoxingStrikeVision\<close>) and an entry point \<open>main\<close>. Its
  collaborators are the OpenCV binding \<open>cv2\<close>, the wall clock \<open>time.time\<close> and
  \<open>print\<close>. Each class is a record, each method a function that takes the object and
  the state of the outside world and returns both, and each \<open>raise\<close> is an \<open>Inl\<close>
  result. Python floats are idealised as reals.
\<close>

subsection \<open>Frames, exceptions and the outside world\<close>

text \<open>A frame is a grid of pixels: a list of rows, each row a list of pixel values.\<close>

type_synonym 'p frame = "'p list list"

text \<open>
  The two exceptions the module raises. The specification calls \<open>IOError\<close> the
  DeviceUnavailable condition and \<open>RuntimeError\<close> the IllegalState condition.
  \<open>Cv2Error\<close> is what the display backend raises when it is handed no image.
\<close>

datatype py_exn = IOError string | RuntimeError string | Cv2Error string

fun exn_message :: "py_exn \<Rightarrow> string" where
  "exn_message (IOError m) = m"
| "exn_message (RuntimeError m) = m"
| "exn_message (Cv2Error m) = m"

text \<open>
  What the program cannot decide itself is a parameter: which camera ids can be opened,
  what the \<open>n\<close>-th frame request of an opened device yields (\<open>None\<close>: the device
  cannot produce a frame), which key code the \<open>n\<close>-th keyboard poll returns (\<open>-1\<close>:
  no key), what the \<open>n\<close>-th reading of the clock is, and how the backend rasterises a
  text onto a frame (frame, text, origin, font face, scale, colour, thickness).
\<close>

record 'p env =
  openable :: "int \<Rightarrow> bool"
  grab :: "nat \<Rightarrow> 'p frame option"
  keypress :: "nat \<Rightarrow> int"
  clock :: "nat \<Rightarrow> real"
  render :: "'p frame \<Rightarrow> string \<Rightarrow> int \<times> int \<Rightarrow> int \<Rightarrow> int \<Rightarrow> int \<times> int \<times> int \<Rightarrow> int \<Rightarrow> 'p frame"

text \<open>
  The mutable part of the outside world: how many frame requests, keyboard polls and
  clock readings have been made, the camera ids this process holds open, the display
  windows that exist, every frame presented so far (with its window), and the lines
  printed so far.
\<close>

record 'p world =
  reads :: nat
  polls :: nat
  ticks :: nat
  held :: "int list"
  windows :: "string list"
  shown :: "(string \<times> 'p frame) list"
  stdout :: "string list"

definition py_print :: "string \<Rightarrow> 'p world \<Rightarrow> 'p world" where
  "py_print line w = w\<lparr>stdout := stdout w @ [line]\<rparr>"

definition time_time :: "'p env \<Rightarrow> 'p world \<Rightarrow> real \<times> 'p world" where
  "time_time e w = (clock e (ticks w), w\<lparr>ticks := Suc (ticks w)\<rparr>)"

subsection \<open>Python's \<open>int()\<close> and \<open>str()\<close> on numbers\<close>

text \<open>\<open>int(x)\<close> on a float truncates towards zero.\<close>

definition py_int :: "real \<Rightarrow> int" where
  "py_int x = (if 0 \<le> x then \<lfloor>x\<rfloor> else \<lceil>x\<rceil>)"

definition digit_char :: "nat \<Rightarrow> char" where
  "digit_char d = ''0123456789'' ! d"

function str_nat :: "nat \<Rightarrow> string" where
  "str_nat n = (if n < 10 then [digit_char n] else str_nat (n div 10) @ [digit_char (n mod 10)])"
  by pat_completeness auto
termination
  by (relation "measure id") auto

declare str_nat.simps [simp del]

text \<open>The decimal text an f-string inserts for an integer.\<close>

definition str_int :: "int \<Rightarrow> string" where
  "str_int i = (if i < 0 then ''-'' @ str_nat (nat (- i)) else str_nat (nat i))"

subsection \<open>The OpenCV collaborators\<close>

text \<open>
  The library is not part of the program; the definitions of this subsection state its
  documented behaviour, as far as the program depends on it.

  A \<open>cv2.VideoCapture\<close> object: the camera id it was built for, whether it holds the
  device open, and the property hints it was given (latest first).
\<close>

record capture =
  device :: int
  is_opened :: bool
  props :: "(int \<times> int) list"

definition CAP_PROP_FRAME_WIDTH :: int where "CAP_PROP_FRAME_WIDTH = 3"
definition CAP_PROP_FRAME_HEIGHT :: int where "CAP_PROP_FRAME_HEIGHT = 4"
definition CAP_PROP_FPS :: int where "CAP_PROP_FPS = 5"
definition FONT_HERSHEY_SIMPLEX :: int where "FONT_HERSHEY_SIMPLEX = 0"

text \<open>Building a capture object tries to open the device; it never raises.\<close>

definition cv2_VideoCapture :: "'p env \<Rightarrow> int \<Rightarrow> 'p world \<Rightarrow> capture \<times> 'p world" where
  "cv2_VideoCapture e cid w =
     (if openable e cid
      then (\<lparr>device = cid, is_opened = True, props = []\<rparr>, w\<lparr>held := cid # held w\<rparr>)
      else (\<lparr>device = cid, is_opened = False, props = []\<rparr>, w))"

definition cap_isOpened :: "capture \<Rightarrow> bool" where
  "cap_isOpened c = is_opened c"

definition cap_set :: "capture \<Rightarrow> int \<Rightarrow> int \<Rightarrow> capture" where
  "cap_set c k v = c\<lparr>props := (k, v) # props c\<rparr>"

text \<open>
  \<open>cap.read()\<close> returns the pair \<open>(ret, frame)\<close>, with \<open>ret\<close> true exactly when
  a frame is there; the model returns the optional frame. A capture that is not open
  yields no frame and asks the device nothing.
\<close>

definition cap_read :: "'p env \<Rightarrow> capture \<Rightarrow> 'p world \<Rightarrow> 'p frame option \<times> 'p world" where
  "cap_read e c w =
     (if is_opened c then (grab e (reads w), w\<lparr>reads := Suc (reads w)\<rparr>) else (None, w))"

definition cap_release :: "capture \<Rightarrow> 'p world \<Rightarrow> capture \<times> 'p world" where
  "cap_release c w =
     (if is_opened c
      then (c\<lparr>is_opened := False\<rparr>, w\<lparr>held := remove1 (device c) (held w)\<rparr>)
      else (c, w))"

text \<open>
  \<open>cv2.flip(src, flipCode)\<close>: \<open>0\<close> turns the frame upside down, a positive code
  mirrors every row, a negative code does both.
\<close>

definition cv2_flip :: "'p frame \<Rightarrow> int \<Rightarrow> 'p frame" where
  "cv2_flip src flipCode =
     (if flipCode = 0 then rev src
      else if 0 < flipCode then map rev src
      else rev (map rev src))"

definition cv2_putText ::
  "'p env \<Rightarrow> 'p frame \<Rightarrow> string \<Rightarrow> int \<times> int \<Rightarrow> int \<Rightarrow> int \<Rightarrow> int \<times> int \<times> int \<Rightarrow> int \<Rightarrow> 'p frame" where
  "cv2_putText e img text org fontFace fontScale color thickness =
     render e img text org fontFace fontScale color thickness"

definition cv2_namedWindow :: "string \<Rightarrow> 'p world \<Rightarrow> 'p world" where
  "cv2_namedWindow name w = w\<lparr>windows := List.insert name (windows w)\<rparr>"

text \<open>Presenting a frame creates the window when it is missing; presenting \<open>None\<close> raises.\<close>

definition cv2_imshow :: "string \<Rightarrow> 'p frame option \<Rightarrow> 'p world \<Rightarrow> (py_exn + unit) \<times> 'p world" where
  "cv2_imshow name mat w =
     (case mat of
        None \<Rightarrow> (Inl (Cv2Error ''imshow: empty image''), w)
      | Some img \<Rightarrow>
          (Inr (), w\<lparr>windows := List.insert name (windows w), shown := shown w @ [(name, img)]\<rparr>))"

definition cv2_waitKey :: "'p env \<Rightarrow> int \<Rightarrow> 'p world \<Rightarrow> int \<times> 'p world" where
  "cv2_waitKey e delay w = (keypress e (polls w), w\<lparr>polls := Suc (polls w)\<rparr>)"

definition cv2_destroyAllWindows :: "'p world \<Rightarrow> 'p world" where
  "cv2_destroyAllWindows w = w\<lparr>windows := []\<rparr>"

subsection \<open>\<open>class VideoStream\<close>\<close>

text \<open>The field \<open>fps\<close> of the class is \<open>stream_fps\<close> here; \<open>FPSCounter\<close> has a field of the same name.\<close>

record VideoStream =
  camera_id :: int
  width :: int
  height :: int
  stream_fps :: int
  cap :: "capture option"

definition VideoStream_init :: "int \<Rightarrow> int \<Rightarrow> int \<Rightarrow> int \<Rightarrow> VideoStream" where
  "VideoStream_init cid wd ht f =
     \<lparr>camera_id = cid, width = wd, height = ht, stream_fps = f, cap = None\<rparr>"

text \<open>
  \<open>start\<close> stores the capture object before it asks whether the device is open, so
  the handle stays set when the \<open>IOError\<close> is raised.
\<close>

definition start :: "'p env \<Rightarrow> VideoStream \<Rightarrow> 'p world \<Rightarrow> (py_exn + unit) \<times> VideoStream \<times> 'p world" where
  "start e s w =
     (let (c, w1) = cv2_VideoCapture e (camera_id s) w;
          s1 = s\<lparr>cap := Some c\<rparr>
      in if \<not> cap_isOpened c
         then (Inl (IOError (''Cannot open camera '' @ str_int (camera_id s1))), s1, w1)
         else
           (let c1 = cap_set c CAP_PROP_FRAME_WIDTH (width s1);
                c2 = cap_set c1 CAP_PROP_FRAME_HEIGHT (height s1);
                c3 = cap_set c2 CAP_PROP_FPS (stream_fps s1)
            in (Inr (), s1\<lparr>cap := Some c3\<rparr>, w1)))"

definition read :: "'p env \<Rightarrow> VideoStream \<Rightarrow> 'p world \<Rightarrow> (py_exn + 'p frame option) \<times> VideoStream \<times> 'p world" where
  "read e s w =
     (case cap s of
        None \<Rightarrow> (Inl (RuntimeError ''Video stream not started. Call start() first.''), s, w)
      | Some c \<Rightarrow>
          (case cap_read e c w of
             (None, w1) \<Rightarrow> (Inr None, s, w1)
           | (Some frame, w1) \<Rightarrow> (Inr (Some (cv2_flip frame 1)), s, w1)))"

definition release :: "VideoStream \<Rightarrow> 'p world \<Rightarrow> VideoStream \<times> 'p world" where
  "release s w =
     (case cap s of
        None \<Rightarrow> (s, w)
      | Some c \<Rightarrow> (let (c1, w1) = cap_release c w in (s\<lparr>cap := None\<rparr>, w1)))"

subsection \<open>\<open>class FPSCounter\<close>\<close>

record FPSCounter =
  prev_time :: real
  current_time :: real
  fps :: real

definition FPSCounter_init :: FPSCounter where
  "FPSCounter_init = \<lparr>prev_time = 0, current_time = 0, fps = 0\<rparr>"

definition update :: "'p env \<Rightarrow> FPSCounter \<Rightarrow> 'p world \<Rightarrow> real \<times> FPSCounter \<times> 'p world" where
  "update e c w =
     (let (t, w1) = time_time e w;
          c1 = c\<lparr>current_time := t\<rparr>;
          time_diff = current_time c1 - prev_time c1;
          c2 = (if 0 < time_diff then c1\<lparr>fps := 1 / time_diff\<rparr> else c1);
          c3 = c2\<lparr>prev_time := current_time c2\<rparr>
      in (fps c3, c3, w1))"

definition fps_text :: "FPSCounter \<Rightarrow> string" where
  "fps_text c = ''FPS: '' @ str_int (py_int (fps c))"

definition draw :: "'p env \<Rightarrow> FPSCounter \<Rightarrow> 'p frame \<Rightarrow> 'p frame" where
  "draw e c frame =
     cv2_putText e frame (fps_text c) (10, 30) FONT_HERSHEY_SIMPLEX 1 (0, 255, 0) 2"

subsection \<open>\<open>class BoxingStrikeVision\<close>\<close>

record BoxingStrikeVision =
  video_stream :: VideoStream
  fps_counter :: FPSCounter
  running :: bool
  window_name :: string

definition BoxingStrikeVision_init :: "int \<Rightarrow> int \<Rightarrow> int \<Rightarrow> int \<Rightarrow> BoxingStrikeVision" where
  "BoxingStrikeVision_init cid wd ht f =
     \<lparr>video_stream = VideoStream_init cid wd ht f, fps_counter = FPSCounter_init,
      running = False, window_name = ''PunchTracker''\<rparr>"

text \<open>The method \<open>setup\<close> of the class; the bare name is reserved in theory files.\<close>

definition tracker_setup ::
  "'p env \<Rightarrow> BoxingStrikeVision \<Rightarrow> 'p world \<Rightarrow> (py_exn + unit) \<times> BoxingStrikeVision \<times> 'p world" where
  "tracker_setup e a w =
     (case start e (video_stream a) w of
        (Inl x, s1, w1) \<Rightarrow> (Inl x, a\<lparr>video_stream := s1\<rparr>, w1)
      | (Inr _, s1, w1) \<Rightarrow>
          (let a1 = a\<lparr>video_stream := s1\<rparr>;
               w2 = cv2_namedWindow (window_name a1) w1;
               w3 = py_print ''PunchTracker initialized. Press 'q' to quit.'' w2
           in (Inr (), a1, w3)))"

definition process_frame ::
  "'p env \<Rightarrow> BoxingStrikeVision \<Rightarrow> 'p frame option \<Rightarrow> 'p world
     \<Rightarrow> 'p frame option \<times> BoxingStrikeVision \<times> 'p world" where
  "process_frame e a frame w =
     (case frame of
        None \<Rightarrow> (None, a, w)
      | Some f \<Rightarrow>
          (let (r, c1, w1) = update e (fps_counter a) w;
               a1 = a\<lparr>fps_counter := c1\<rparr>;
               f1 = draw e (fps_counter a1) f
           in (Some f1, a1, w1)))"

text \<open>
  The \<open>while self.running\<close> loop. It may run forever (a camera that always delivers
  and a user who never presses \<open>q\<close>), so its result is optional: \<open>None\<close> is the loop
  that does not return. A returned triple holds the exception that left the loop, if
  any, the application object and the world.
\<close>

partial_function (option) run_loop ::
  "'p env \<Rightarrow> BoxingStrikeVision \<Rightarrow> 'p world
     \<Rightarrow> ((py_exn + unit) \<times> BoxingStrikeVision \<times> 'p world) option" where
  "run_loop e a w =
     (if running a then
        (case read e (video_stream a) w of
           (Inl x, s1, w1) \<Rightarrow> Some (Inl x, a\<lparr>video_stream := s1\<rparr>, w1)
         | (Inr None, s1, w1) \<Rightarrow>
             Some (Inr (), a\<lparr>video_stream := s1\<rparr>,
                   py_print ''Failed to grab frame. Exiting...'' w1)
         | (Inr (Some frame), s1, w1) \<Rightarrow>
             (case process_frame e (a\<lparr>video_stream := s1\<rparr>) (Some frame) w1 of
                (processed_frame, a2, w2) \<Rightarrow>
                  (case cv2_imshow (window_name a2) processed_frame w2 of
                     (Inl x, w3) \<Rightarrow> Some (Inl x, a2, w3)
                   | (Inr _, w3) \<Rightarrow>
                       (case cv2_waitKey e 1 w3 of
                          (k, w4) \<Rightarrow>
                            (let key = k AND 255
                             in if key = of_char (CHR ''q'')
                                then run_loop e (a2\<lparr>running := False\<rparr>) w4
                                else run_loop e a2 w4)))))
      else Some (Inr (), a, w))"

definition run ::
  "'p env \<Rightarrow> BoxingStrikeVision \<Rightarrow> 'p world
     \<Rightarrow> ((py_exn + unit) \<times> BoxingStrikeVision \<times> 'p world) option" where
  "run e a w = run_loop e (a\<lparr>running := True\<rparr>) w"

definition cleanup :: "BoxingStrikeVision \<Rightarrow> 'p world \<Rightarrow> BoxingStrikeVision \<times> 'p world" where
  "cleanup a w =
     (let (s1, w1) = release (video_stream a) w;
          w2 = cv2_destroyAllWindows w1;
          w3 = py_print ''BoxingStrikeVision shutdown complete.'' w2
      in (a\<lparr>video_stream := s1\<rparr>, w3))"

text \<open>
  \<open>main\<close>: \<open>try: tracker.setup().run()\<close>, \<open>except Exception as e\<close> prints the
  message, \<open>finally\<close> cleans up. The result is the tracker and the world at exit, or
  \<open>None\<close> when the loop never returns.
\<close>

definition main :: "'p env \<Rightarrow> 'p world \<Rightarrow> (BoxingStrikeVision \<times> 'p world) option" where
  "main e w =
     (let tracker = BoxingStrikeVision_init 0 640 480 30
      in case (case tracker_setup e tracker w of
                 (Inl x, t1, w1) \<Rightarrow> Some (Inl x, t1, w1)
               | (Inr _, t1, w1) \<Rightarrow> run e t1 w1) of
           None \<Rightarrow> None
         | Some (Inl x, t2, w2) \<Rightarrow> Some (cleanup t2 (py_print (''Error: '' @ exn_message x) w2))
         | Some (Inr _, t2, w2) \<Rightarrow> Some (cleanup t2 w2))"

subsection \<open>Repeated calls and the course of the loop\<close>

text \<open>\<open>n\<close> consecutive calls of \<open>release\<close>, and \<open>n\<close> consecutive calls of \<open>update\<close>.\<close>

fun release_n :: "nat \<Rightarrow> VideoStream \<Rightarrow> 'p world \<Rightarrow> VideoStream \<times> 'p world" where
  "release_n 0 s w = (s, w)"
| "release_n (Suc n) s w = (case release s w of (s1, w1) \<Rightarrow> release_n n s1 w1)"

fun update_n :: "'p env \<Rightarrow> nat \<Rightarrow> FPSCounter \<Rightarrow> 'p world \<Rightarrow> FPSCounter \<times> 'p world" where
  "update_n e 0 c w = (c, w)"
| "update_n e (Suc n) c w = (case update e c w of (r, c1, w1) \<Rightarrow> update_n e n c1 w1)"

text \<open>The \<open>n\<close>-th keyboard poll reports the quit key: the test the loop applies to it.\<close>

definition quit_pressed :: "'p env \<Rightarrow> nat \<Rightarrow> bool" where
  "quit_pressed e n = (keypress e n AND 255 = of_char (CHR ''q''))"

text \<open>
  The frame the loop presents in its iteration \<open>i\<close> (counted from \<open>0\<close>) when it is
  entered with application \<open>a\<close> in world \<open>w\<close>: the mirrored \<open>i\<close>-th frame of the
  device, with the overlay of the counter after \<open>i + 1\<close> updates.
\<close>

definition presented :: "'p env \<Rightarrow> BoxingStrikeVision \<Rightarrow> 'p world \<Rightarrow> nat \<Rightarrow> string \<times> 'p frame" where
  "presented e a w i =
     (window_name a,
      draw e (fst (update_n e (Suc i) (fps_counter a) w)) (cv2_flip (the (grab e (reads w + i))) 1))"

text \<open>
  Application and world after \<open>k\<close> complete iterations: \<open>k\<close> frames requested,
  \<open>k\<close> updates of the counter, \<open>k\<close> frames presented, \<open>k\<close> keyboard polls.
\<close>

definition after_iterations ::
  "'p env \<Rightarrow> BoxingStrikeVision \<Rightarrow> 'p world \<Rightarrow> nat \<Rightarrow> BoxingStrikeVision \<times> 'p world" where
  "after_iterations e a w k =
     (a\<lparr>fps_counter := fst (update_n e k (fps_counter a) w)\<rparr>,
      w\<lparr>reads := reads w + k, polls := polls w + k, ticks := ticks w + k,
        windows := (if k = 0 then windows w else List.insert (window_name a) (windows w)),
        shown := shown w @ map (presented e a w) [0..<k]\<rparr>)"

subsection \<open>Scripted environments for concrete runs\<close>

text \<open>
  An environment given by finite scripts: the frames the device delivers in turn (no
  frame once the script is used up), the key codes of the polls (then no key), the clock
  readings (then \<open>0\<close>), and a rasteriser that leaves the frame as it is.
\<close>

definition scripted_env :: "bool \<Rightarrow> 'p frame option list \<Rightarrow> int list \<Rightarrow> real list \<Rightarrow> 'p env" where
  "scripted_env ok frames codes stamps =
     \<lparr>openable = (\<lambda>cid. ok),
      grab = (\<lambda>n. if n < length frames then frames ! n else None),
      keypress = (\<lambda>n. if n < length codes then codes ! n else - 1),
      clock = (\<lambda>n. if n < length stamps then stamps ! n else 0),
      render = (\<lambda>img text org face scale color thick. img)\<rparr>"

definition fresh_world :: "'p world" where
  "fresh_world =
     \<lparr>reads = 0, polls = 0, ticks = 0, held = [], windows = [], shown = [], stdout = []\<rparr>"

definition no_camera :: "nat env" where
  "no_camera = scripted_env False [] [] []"

definition one_frame_camera :: "nat env" where
  "one_frame_camera = scripted_env True [Some [ [1, 2, 3], [4, 5, 6]]] [] []"

definition default_stream :: VideoStream where
  "default_stream = VideoStream_init 0 640 480 30"

definition open_capture :: capture where
  "open_capture = \<lparr>device = 0, is_opened = True, props = [(5, 30), (4, 480), (3, 640)]\<rparr>"

text \<open>A clock that stands still once and then steps back.\<close>

definition jittery_clock :: "nat env" where
  "jittery_clock = scripted_env True [] [] [100, 100, 99, 99 + 2 / 5]"

text \<open>
  The tracker that \<open>main\<close> constructs, once \<open>setup\<close> has succeeded, and the world
  \<open>setup\<close> leaves behind: camera \<open>0\<close> held, the window created, the notice printed.
\<close>

definition ready_tracker :: BoxingStrikeVision where
  "ready_tracker =
     (BoxingStrikeVision_init 0 640 480 30)\<lparr>video_stream := default_stream\<lparr>cap := Some open_capture\<rparr>\<rparr>"

definition ready_world :: "'p world \<Rightarrow> 'p world" where
  "ready_world w =
     w\<lparr>held := 0 # held w, windows := List.insert ''PunchTracker'' (windows w),
       stdout := stdout w @ [''PunchTracker initialized. Press 'q' to quit.'']\<rparr>"

text \<open>A camera that delivers four frames and then nothing; nobody touches the keyboard.\<close>

definition failing_camera :: "nat env" where
  "failing_camera = scripted_env True (replicate 4 (Some [ [1, 2], [3, 4]])) [] [1, 2, 3, 4]"



section \<open>Facts about the model\<close>

subsection \<open>Decimal texts\<close>

lemma str_int_0: "str_int 0 = ''0''"
  by code_simp

lemma str_int_2: "str_int 2 = ''2''"
  by code_simp

lemma str_int_7: "str_int 7 = ''7''"
  by code_simp

subsection \<open>Releasing and updating repeatedly\<close>

lemma release_unset: "cap (fst (release s w)) = None"
  by (simp add: release_def split: option.splits prod.splits)

lemma release_n_unset: "cap s = None \<Longrightarrow> release_n n s w = (s, w)"
  by (induction n) (simp_all add: release_def)

lemma update_world: "snd (snd (update e c w)) = w\<lparr>ticks := Suc (ticks w)\<rparr>"
  by (simp add: update_def time_time_def Let_def)

lemma update_keeps_nonneg: "0 \<le> fps c \<Longrightarrow> 0 \<le> fps (fst (snd (update e c w)))"
  by (simp add: update_def time_time_def Let_def)

lemma update_n_keeps_nonneg: "0 \<le> fps c \<Longrightarrow> 0 \<le> fps (fst (update_n e n c w))"
proof (induction n arbitrary: c w)
  case 0
  then show ?case by simp
next
  case (Suc n)
  obtain r c1 w1 where u: "update e c w = (r, c1, w1)" by (cases "update e c w") auto
  then have "0 \<le> fps c1" using update_keeps_nonneg [OF Suc.prems, of e w] by simp
  from Suc.IH [OF this, of w1] u show ?case by simp
qed

lemma update_ticks_only:
  "ticks w = ticks v \<Longrightarrow> fst (snd (update e c w)) = fst (snd (update e c v))"
  by (simp add: update_def time_time_def Let_def)

lemma update_n_ticks_only:
  "ticks w = ticks v \<Longrightarrow> fst (update_n e n c w) = fst (update_n e n c v)"
proof (induction n arbitrary: c w v)
  case 0
  show ?case by simp
next
  case (Suc n)
  obtain r c1 w1 where u: "update e c w = (r, c1, w1)" by (cases "update e c w") auto
  obtain r' c1' v1 where u': "update e c v = (r', c1', v1)" by (cases "update e c v") auto
  have "c1 = c1'" using update_ticks_only [OF Suc.prems, of e c] u u' by simp
  moreover have "ticks w1 = ticks v1"
    using update_world [of e c w] update_world [of e c v] u u' Suc.prems by simp
  ultimately show ?case using Suc.IH [of w1 v1 c1] u u' by simp
qed

lemma update_n_world: "snd (update_n e k c w) = w\<lparr>ticks := ticks w + k\<rparr>"
proof (induction k arbitrary: c w)
  case 0
  show ?case by simp
next
  case (Suc k)
  obtain r c1 w1 where u: "update e c w = (r, c1, w1)" by (cases "update e c w") auto
  then have "w1 = w\<lparr>ticks := Suc (ticks w)\<rparr>" using update_world [of e c w] by simp
  then show ?case using u Suc.IH [of c1 w1] by simp
qed

lemma update_n_end:
  "fst (update_n e (Suc k) c w) =
   fst (update_n e (Suc 0) (fst (update_n e k c w)) (snd (update_n e k c w)))"
proof (induction k arbitrary: c w)
  case 0
  show ?case by simp
next
  case (Suc k)
  obtain r c1 w1 where u: "update e c w = (r, c1, w1)" by (cases "update e c w") auto
  show ?case using Suc.IH [of c1 w1] u by simp
qed

lemma update_n_last:
  assumes "ticks v = ticks w + k"
  shows "fst (update_n e (Suc 0) (fst (update_n e k c w)) v) = fst (update_n e (Suc k) c w)"
proof -
  have "ticks v = ticks (snd (update_n e k c w))"
    using assms by (simp add: update_n_world)
  from update_n_ticks_only [OF this, of e "Suc 0" "fst (update_n e k c w)"]
  show ?thesis by (simp only: update_n_end [of e k c w])
qed

subsection \<open>The loop, one iteration at a time\<close>


lemma run_loop_not_started:
  "running a \<Longrightarrow> cap (video_stream a) = None \<Longrightarrow>
   run_loop e a w =
     Some (Inl (RuntimeError ''Video stream not started. Call start() first.''), a, w)"
  by (subst run_loop.simps) (simp add: read_def)

lemma run_loop_break:
  assumes "running a" and "cap (video_stream a) = Some c" and "is_opened c"
    and "grab e (reads w) = None"
  shows "run_loop e a w =
           Some (Inr (), a, py_print ''Failed to grab frame. Exiting...'' (w\<lparr>reads := Suc (reads w)\<rparr>))"
  using assms by (subst run_loop.simps) (simp add: read_def cap_read_def)

text \<open>One complete iteration: the flag is cleared exactly when the poll saw the quit key.\<close>

lemma run_loop_iteration:
  assumes "running a" and "cap (video_stream a) = Some c" and "is_opened c"
    and "grab e (reads w) = Some raw"
  shows "run_loop e a w =
           run_loop e (a\<lparr>fps_counter := fst (update_n e (Suc 0) (fps_counter a) w),
                          running := \<not> quit_pressed e (polls w)\<rparr>)
             (w\<lparr>reads := Suc (reads w), polls := Suc (polls w), ticks := Suc (ticks w),
                windows := List.insert (window_name a) (windows w),
                shown := shown w @ [presented e a w 0]\<rparr>)"
proof -
  have t: "\<And>x. a\<lparr>fps_counter := x, running := True\<rparr> = a\<lparr>fps_counter := x\<rparr>"
    using assms(1) by simp
  show ?thesis
    using assms
    apply (subst run_loop.simps)
    apply (simp add: read_def cap_read_def process_frame_def cv2_imshow_def cv2_waitKey_def
          update_def time_time_def presented_def quit_pressed_def Let_def t)
    apply (intro conjI impI arg_cong2 [where f = "run_loop e"] refl world.equality; simp)
    done
qed

lemma run_loop_iterations:
  assumes "running a" and "cap (video_stream a) = Some c" and "is_opened c"
    and "\<forall>i<k. grab e (reads w + i) \<noteq> None"
    and "\<forall>i<k. \<not> quit_pressed e (polls w + i)"
  shows "run_loop e a w =
           run_loop e (fst (after_iterations e a w k)) (snd (after_iterations e a w k))"
  using assms(4,5)
proof (induction k)
  case 0
  show ?case by (simp add: after_iterations_def)
next
  case (Suc k)
  let ?a = "fst (after_iterations e a w k)"
  let ?w = "snd (after_iterations e a w k)"
  have ih: "run_loop e a w = run_loop e ?a ?w" using Suc by simp
  have r: "running ?a" "cap (video_stream ?a) = Some c"
    using assms(1,2) by (simp_all add: after_iterations_def)
  obtain raw where g: "grab e (reads ?w) = Some raw"
    using Suc.prems(1) by (auto simp: after_iterations_def)
  have q: "\<not> quit_pressed e (polls ?w)"
    using Suc.prems(2) by (simp add: after_iterations_def)
  have t: "ticks ?w = ticks w + k" by (simp add: after_iterations_def)
  have c: "fst (update_n e (Suc 0) (fps_counter ?a) ?w) = fst (update_n e (Suc k) (fps_counter a) w)"
    using update_n_last [OF t, of e "fps_counter a"] by (simp add: after_iterations_def)
  have p: "presented e ?a ?w 0 = presented e a w k"
    using c by (simp add: presented_def) (simp add: after_iterations_def)
  have "run_loop e ?a ?w =
          run_loop e (fst (after_iterations e a w (Suc k))) (snd (after_iterations e a w (Suc k)))"
    apply (subst run_loop_iteration [OF r assms(3) g])
    apply (simp only: c p q)
    apply (intro arg_cong2 [where f = "run_loop e"] world.equality BoxingStrikeVision.equality)
    apply (simp_all add: after_iterations_def assms(1))
    done
  with ih show ?case by simp
qed

text \<open>The read of iteration \<open>k + 1\<close> is the first to fail.\<close>

lemma run_loop_fail_at:
  assumes "running a" and "cap (video_stream a) = Some c" and "is_opened c"
    and "\<forall>i<k. grab e (reads w + i) \<noteq> None"
    and "\<forall>i<k. \<not> quit_pressed e (polls w + i)"
    and "grab e (reads w + k) = None"
  shows "run_loop e a w =
           Some (Inr (), fst (after_iterations e a w k),
                 py_print ''Failed to grab frame. Exiting...''
                   ((snd (after_iterations e a w k))\<lparr>reads := Suc (reads w + k)\<rparr>))"
proof -
  let ?a = "fst (after_iterations e a w k)"
  let ?w = "snd (after_iterations e a w k)"
  have r: "running ?a" "cap (video_stream ?a) = Some c"
    using assms(1,2) by (simp_all add: after_iterations_def)
  have g: "grab e (reads ?w) = None"
    using assms(6) by (simp add: after_iterations_def)
  have "run_loop e a w = run_loop e ?a ?w"
    by (rule run_loop_iterations [OF assms(1-5)])
  also have "\<dots> = Some (Inr (), ?a, py_print ''Failed to grab frame. Exiting...''
                                      (?w\<lparr>reads := Suc (reads ?w)\<rparr>))"
    by (rule run_loop_break [OF r assms(3) g])
  finally show ?thesis by (simp add: after_iterations_def)
qed



subsection \<open>What stops the loop\<close>


subsection \<open>Setup, main and cleanup\<close>

lemma presented_running: "presented e (a\<lparr>running := b\<rparr>) w = presented e a w"
  by (simp add: presented_def fun_eq_iff)

lemma presented_ready_world: "presented e a (ready_world w) i = presented e a w i"
proof -
  have "ticks (ready_world w) = ticks w" by (simp add: ready_world_def)
  from update_n_ticks_only [OF this, of e "Suc i" "fps_counter a"]
  show ?thesis by (simp add: presented_def ready_world_def)
qed

lemma tracker_setup_ok:
  assumes "openable e 0"
  shows "tracker_setup e (BoxingStrikeVision_init 0 640 480 30) w = (Inr (), ready_tracker, ready_world w)"
  using assms
  by (simp add: tracker_setup_def start_def cv2_VideoCapture_def cap_isOpened_def cap_set_def
        cv2_namedWindow_def py_print_def BoxingStrikeVision_init_def VideoStream_init_def
        ready_tracker_def ready_world_def default_stream_def open_capture_def Let_def
        CAP_PROP_FRAME_WIDTH_def CAP_PROP_FRAME_HEIGHT_def CAP_PROP_FPS_def)

lemma tracker_setup_fails:
  assumes "\<not> openable e (camera_id (video_stream a))"
  shows "tracker_setup e a w =
           (Inl (IOError (''Cannot open camera '' @ str_int (camera_id (video_stream a)))),
            a\<lparr>video_stream := (video_stream a)
                 \<lparr>cap := Some \<lparr>device = camera_id (video_stream a), is_opened = False, props = []\<rparr>\<rparr>\<rparr>,
            w)"
  using assms
  by (simp add: tracker_setup_def start_def cv2_VideoCapture_def cap_isOpened_def Let_def)

lemma main_after_setup:
  assumes "openable e 0" and "run e ready_tracker (ready_world w) = Some (Inr (), a', w')"
  shows "main e w = Some (cleanup a' w')"
  using assms by (simp add: main_def tracker_setup_ok)

lemma cleanup_fields:
  assumes "cap (video_stream a) = Some c" and "is_opened c"
  shows "cap (video_stream (fst (cleanup a w))) = None"
    and "reads (snd (cleanup a w)) = reads w"
    and "polls (snd (cleanup a w)) = polls w"
    and "ticks (snd (cleanup a w)) = ticks w"
    and "shown (snd (cleanup a w)) = shown w"
    and "held (snd (cleanup a w)) = remove1 (device c) (held w)"
    and "windows (snd (cleanup a w)) = []"
    and "stdout (snd (cleanup a w)) = stdout w @ [''BoxingStrikeVision shutdown complete.'']"
  using assms
  by (simp_all add: cleanup_def release_def cap_release_def cv2_destroyAllWindows_def py_print_def)

section \<open>Properties\<close>

subsection \<open>Rate Monitor: one call of \<open>update\<close>\<close>

text \<open>
  Claim C1. For every call of \<open>update\<close>, with \<open>d\<close> the time elapsed between the
  stored previous timestamp and the clock reading of the call: if \<open>d\<close> is strictly
  positive the stored rate becomes \<open>1 / d\<close>; if \<open>d\<close> is zero (and likewise if the
  clock went backwards) the stored rate keeps its prior value; in every case the stored
  previous timestamp becomes the current reading and the returned value is the stored
  rate after the call.
\<close>

theorem update_rate:
  assumes "update e c w = (r, c', w')" and "d = clock e (ticks w) - prev_time c"
  shows "(0 < d \<longrightarrow> fps c' = 1 / d) \<and> (d = 0 \<longrightarrow> fps c' = fps c) \<and> (d < 0 \<longrightarrow> fps c' = fps c)
       \<and> prev_time c' = clock e (ticks w) \<and> r = fps c'"
  using assms by (auto simp: update_def time_time_def Let_def split: if_splits)

theorem update_rate_witness:
  "update (scripted_env True [] [] [5 / 2]) \<lparr>prev_time = 2, current_time = 2, fps = 7\<rparr>
       (fresh_world :: nat world)
     = (2, \<lparr>prev_time = 5 / 2, current_time = 5 / 2, fps = 2\<rparr>, fresh_world\<lparr>ticks := 1\<rparr>)
   \<and> update (scripted_env True [] [] [2]) \<lparr>prev_time = 2, current_time = 2, fps = 7\<rparr>
       (fresh_world :: nat world)
     = (7, \<lparr>prev_time = 2, current_time = 2, fps = 7\<rparr>, fresh_world\<lparr>ticks := 1\<rparr>)
   \<and> update (scripted_env True [] [] [1]) \<lparr>prev_time = 2, current_time = 2, fps = 7\<rparr>
       (fresh_world :: nat world)
     = (7, \<lparr>prev_time = 1, current_time = 1, fps = 7\<rparr>, fresh_world\<lparr>ticks := 1\<rparr>)"
proof -
  let ?c = "\<lparr>prev_time = 2, current_time = 2, fps = 7\<rparr>"
  let ?w = "fresh_world :: nat world"
  let ?e1 = "scripted_env True [] [] [5 / 2] :: nat env"
  let ?e2 = "scripted_env True [] [] [2] :: nat env"
  let ?e3 = "scripted_env True [] [] [1] :: nat env"
  obtain r1 c1 w1 where u1: "update ?e1 ?c ?w = (r1, c1, w1)"
    by (cases "update ?e1 ?c ?w") auto
  obtain r2 c2 w2 where u2: "update ?e2 ?c ?w = (r2, c2, w2)"
    by (cases "update ?e2 ?c ?w") auto
  obtain r3 c3 w3 where u3: "update ?e3 ?c ?w = (r3, c3, w3)"
    by (cases "update ?e3 ?c ?w") auto
  have d1: "(1 / 2 :: real) = clock ?e1 (ticks ?w) - prev_time ?c"
    by (simp add: scripted_env_def fresh_world_def)
  have d2: "(0 :: real) = clock ?e2 (ticks ?w) - prev_time ?c"
    by (simp add: scripted_env_def fresh_world_def)
  have d3: "(- 1 :: real) = clock ?e3 (ticks ?w) - prev_time ?c"
    by (simp add: scripted_env_def fresh_world_def)
  have "fps c1 = 2 \<and> r1 = fps c1" "fps c2 = 7 \<and> r2 = fps c2" "fps c3 = 7 \<and> r3 = fps c3"
    using update_rate [OF u1 d1] update_rate [OF u2 d2] update_rate [OF u3 d3] by simp_all
  then show ?thesis
    using u1 u2 u3
    by (auto simp: update_def time_time_def scripted_env_def fresh_world_def Let_def)
qed

subsection \<open>Capture Source: \<open>read\<close> mirrors the frame\<close>

text \<open>
  Claim C2. Whenever the open device delivers a raw frame, \<open>read\<close> returns a frame
  with the same rows of the same widths, and in every row the pixel at column \<open>x\<close> is
  the raw frame's pixel at column \<open>width - 1 - x\<close>.
\<close>

theorem read_mirror:
  assumes "cap s = Some c" and "is_opened c" and "grab e (reads w) = Some raw"
  shows "\<exists>f. fst (read e s w) = Inr (Some f) \<and> length f = length raw
           \<and> (\<forall>y < length raw. length (f ! y) = length (raw ! y)
                \<and> (\<forall>x < length (raw ! y). f ! y ! x = raw ! y ! (length (raw ! y) - 1 - x)))"
  using assms by (simp add: read_def cap_read_def cv2_flip_def rev_nth)

theorem read_mirror_witness:
  "fst (read one_frame_camera (default_stream\<lparr>cap := Some open_capture\<rparr>) fresh_world)
     = Inr (Some [ [3, 2, 1], [6, 5, 4]])"
proof -
  let ?s = "default_stream\<lparr>cap := Some open_capture\<rparr>"
  have h: "cap ?s = Some open_capture" "is_opened open_capture"
    "grab one_frame_camera (reads (fresh_world :: nat world)) = Some [ [1, 2, 3], [4, 5, 6]]"
    by (simp_all add: open_capture_def one_frame_camera_def scripted_env_def fresh_world_def)
  from read_mirror [OF h] obtain f where
    f: "fst (read one_frame_camera ?s fresh_world) = Inr (Some f)" by blast
  then show ?thesis
    by (simp add: read_def cap_read_def cv2_flip_def open_capture_def one_frame_camera_def
          scripted_env_def fresh_world_def)
qed

subsection \<open>Capture Source: \<open>read\<close> without a handle\<close>

text \<open>
  Claim C3, as amended. On every instance whose device handle is unset (\<open>start\<close> has
  not been called since construction or since the last \<open>release\<close>), \<open>read\<close> raises
  the IllegalState condition (\<open>RuntimeError\<close>): it returns neither a frame nor the
  no-frame sentinel, and leaves the instance and the world as they were.
\<close>

theorem read_before_start:
  assumes "cap s = None"
  shows "read e s w = (Inl (RuntimeError ''Video stream not started. Call start() first.''), s, w)"
  using assms by (simp add: read_def)

theorem read_before_start_witness:
  "cap default_stream = None \<and>
   read one_frame_camera default_stream fresh_world =
     (Inl (RuntimeError ''Video stream not started. Call start() first.''),
      default_stream, fresh_world)"
proof -
  have h: "cap default_stream = None"
    by (simp add: default_stream_def VideoStream_init_def)
  from read_before_start [OF h] h show ?thesis by simp
qed

text \<open>
  The claim as first stated also covers an instance on which \<open>start\<close> was called
  without success. There the handle is set although the device is not open, and
  \<open>read\<close> returns the no-frame sentinel instead of raising.
\<close>

theorem read_after_failed_start_counterexample:
  "fst (start no_camera default_stream fresh_world) = Inl (IOError ''Cannot open camera 0'')
   \<and> fst (read no_camera (fst (snd (start no_camera default_stream fresh_world)))
                 (snd (snd (start no_camera default_stream fresh_world)))) = Inr None"
  by (simp add: start_def read_def cv2_VideoCapture_def cap_isOpened_def cap_read_def
        no_camera_def default_stream_def VideoStream_init_def scripted_env_def fresh_world_def
        str_int_0)

subsection \<open>Capture Source: \<open>release\<close>, any number of times\<close>

text \<open>
  Claim C4, as amended. \<open>release\<close> has no failing branch. After one or more calls
  the device handle is unset, whatever the instance was; after any number of calls, zero
  included, on an instance whose handle is unset (never started, or already released)
  nothing has changed and the handle is still unset; and a second consecutive
  \<open>release\<close> leaves instance and world exactly as the first left them.
\<close>

theorem release_any_number:
  "(0 < n \<or> cap s = None \<longrightarrow> cap (fst (release_n n s w)) = None)
   \<and> (cap s = None \<longrightarrow> release_n n s w = (s, w))
   \<and> release (fst (release s w)) (snd (release s w)) = release s w"
proof (intro conjI impI)
  assume "0 < n \<or> cap s = None"
  then show "cap (fst (release_n n s w)) = None"
  proof
    assume "0 < n"
    then obtain m where n: "n = Suc m" by (cases n) auto
    obtain s1 w1 where r: "release s w = (s1, w1)" by (cases "release s w") auto
    then have "cap s1 = None" using release_unset [of s w] by simp
    then show ?thesis using n r by (simp add: release_n_unset)
  next
    assume "cap s = None"
    then show ?thesis by (simp add: release_n_unset)
  qed
next
  assume "cap s = None"
  then show "release_n n s w = (s, w)" by (rule release_n_unset)
next
  obtain s1 w1 where r: "release s w = (s1, w1)" by (cases "release s w") auto
  then have "cap s1 = None" using release_unset [of s w] by simp
  then have "release s1 w1 = (s1, w1)" by (simp add: release_def)
  then show "release (fst (release s w)) (snd (release s w)) = release s w" using r by simp
qed

theorem release_any_number_witness:
  "cap (fst (release_n 3 (default_stream\<lparr>cap := Some open_capture\<rparr>)
                        ((fresh_world :: nat world)\<lparr>held := [0]\<rparr>))) = None
   \<and> release_n 2 default_stream (fresh_world :: nat world) = (default_stream, fresh_world)"
proof -
  have h: "cap default_stream = None"
    by (simp add: default_stream_def VideoStream_init_def)
  have "(0::nat) < 3" by simp
  with release_any_number [of 3 "default_stream\<lparr>cap := Some open_capture\<rparr>"
                             "(fresh_world :: nat world)\<lparr>held := [0]\<rparr>"]
       release_any_number [of 2 default_stream "fresh_world :: nat world"] h
  show ?thesis by simp
qed

text \<open>
  The claim as first stated lets the number of calls be zero on any instance. With zero
  calls on a started stream the handle is still the open capture.
\<close>

theorem release_zero_counterexample:
  "cap (fst (release_n 0 (fst (snd (start one_frame_camera default_stream fresh_world)))
                         (snd (snd (start one_frame_camera default_stream fresh_world)))))
     = Some open_capture"
  by (simp add: start_def cv2_VideoCapture_def cap_isOpened_def cap_set_def Let_def
        one_frame_camera_def default_stream_def VideoStream_init_def scripted_env_def
        fresh_world_def open_capture_def CAP_PROP_FRAME_WIDTH_def CAP_PROP_FRAME_HEIGHT_def
        CAP_PROP_FPS_def)

subsection \<open>Capture Source: \<open>read\<close> when the device delivers nothing\<close>

text \<open>
  Claim C5. On a started stream whose device cannot produce a frame, \<open>read\<close> returns
  the no-frame sentinel and raises nothing; and whenever the handle is set, \<open>read\<close>
  raises nothing at all.
\<close>

theorem read_no_frame:
  assumes "cap s = Some c"
  shows "(is_opened c \<and> grab e (reads w) = None
            \<longrightarrow> read e s w = (Inr None, s, w\<lparr>reads := Suc (reads w)\<rparr>))
       \<and> (\<not> is_opened c \<longrightarrow> read e s w = (Inr None, s, w))
       \<and> (\<forall>x. fst (read e s w) \<noteq> Inl x)"
  using assms by (auto simp: read_def cap_read_def split: option.splits)

theorem read_no_frame_witness:
  "read one_frame_camera (default_stream\<lparr>cap := Some open_capture\<rparr>) (fresh_world\<lparr>reads := 1\<rparr>)
     = (Inr None, default_stream\<lparr>cap := Some open_capture\<rparr>, fresh_world\<lparr>reads := 2\<rparr>)
   \<and> read one_frame_camera (default_stream\<lparr>cap := Some (open_capture\<lparr>is_opened := False\<rparr>)\<rparr>)
        fresh_world
     = (Inr None, default_stream\<lparr>cap := Some (open_capture\<lparr>is_opened := False\<rparr>)\<rparr>, fresh_world)"
proof -
  let ?s = "default_stream\<lparr>cap := Some open_capture\<rparr>"
  let ?t = "default_stream\<lparr>cap := Some (open_capture\<lparr>is_opened := False\<rparr>)\<rparr>"
  let ?w = "(fresh_world :: nat world)\<lparr>reads := 1\<rparr>"
  have s: "cap ?s = Some open_capture" and t: "cap ?t = Some (open_capture\<lparr>is_opened := False\<rparr>)"
    by simp_all
  have g: "is_opened open_capture \<and> grab one_frame_camera (reads ?w) = None"
    by (simp add: open_capture_def one_frame_camera_def scripted_env_def fresh_world_def)
  have n: "\<not> is_opened (open_capture\<lparr>is_opened := False\<rparr>)" by simp
  from read_no_frame [OF s, of one_frame_camera ?w] g
       read_no_frame [OF t, of one_frame_camera fresh_world] n
  show ?thesis by (simp add: fresh_world_def)
qed

subsection \<open>Session Coordinator: the device cannot be opened\<close>

text \<open>
  Claim C6. If the device cannot be opened, \<open>start\<close> raises the DeviceUnavailable
  condition (\<open>IOError\<close>) and \<open>setup\<close> raises the same exception, having created no
  window. \<open>main\<close> then prints the error, still runs \<open>cleanup\<close> on the tracker and
  returns: the device handle is unset, the process holds no device it did not hold
  before, and no display window is left.
\<close>

theorem open_failure_cleans_up:
  "(\<not> openable e (camera_id (video_stream a)) \<longrightarrow>
      fst (start e (video_stream a) w) =
        Inl (IOError (''Cannot open camera '' @ str_int (camera_id (video_stream a))))
      \<and> fst (tracker_setup e a w) = fst (start e (video_stream a) w)
      \<and> windows (snd (snd (tracker_setup e a w))) = windows w)
   \<and> (\<not> openable e 0 \<longrightarrow>
      fst (tracker_setup e (BoxingStrikeVision_init 0 640 480 30) w) =
        Inl (IOError ''Cannot open camera 0'')
      \<and> main e w =
          Some (cleanup (fst (snd (tracker_setup e (BoxingStrikeVision_init 0 640 480 30) w)))
                  (py_print ''Error: Cannot open camera 0''
                     (snd (snd (tracker_setup e (BoxingStrikeVision_init 0 640 480 30) w)))))
      \<and> (\<exists>t w'. main e w = Some (t, w') \<and> cap (video_stream t) = None
            \<and> held w' = held w \<and> windows w' = [] \<and> shown w' = shown w
            \<and> stdout w' = stdout w @ [''Error: Cannot open camera 0'',
                                       ''BoxingStrikeVision shutdown complete.'']))"
proof (intro conjI impI)
  assume n: "\<not> openable e (camera_id (video_stream a))"
  then show "fst (start e (video_stream a) w) =
        Inl (IOError (''Cannot open camera '' @ str_int (camera_id (video_stream a))))"
    by (simp add: start_def cv2_VideoCapture_def cap_isOpened_def Let_def)
  from n show "fst (tracker_setup e a w) = fst (start e (video_stream a) w)"
    by (simp add: tracker_setup_fails) (simp add: start_def cv2_VideoCapture_def cap_isOpened_def Let_def)
  from n show "windows (snd (snd (tracker_setup e a w))) = windows w"
    by (simp add: tracker_setup_fails)
next
  let ?T = "BoxingStrikeVision_init 0 640 480 30"
  assume "\<not> openable e 0"
  then have n: "\<not> openable e (camera_id (video_stream ?T))"
    by (simp add: BoxingStrikeVision_init_def VideoStream_init_def)
  have m: "''Cannot open camera '' @ str_int (camera_id (video_stream ?T)) = ''Cannot open camera 0''"
    by (simp add: BoxingStrikeVision_init_def VideoStream_init_def str_int_0)
  note s = tracker_setup_fails [OF n, of w, unfolded m]
  show "fst (tracker_setup e ?T w) = Inl (IOError ''Cannot open camera 0'')"
    by (simp add: s)
  show c: "main e w = Some (cleanup (fst (snd (tracker_setup e ?T w)))
                  (py_print ''Error: Cannot open camera 0'' (snd (snd (tracker_setup e ?T w)))))"
    by (simp add: main_def s)
  show "\<exists>t w'. main e w = Some (t, w') \<and> cap (video_stream t) = None
            \<and> held w' = held w \<and> windows w' = [] \<and> shown w' = shown w
            \<and> stdout w' = stdout w @ [''Error: Cannot open camera 0'',
                                       ''BoxingStrikeVision shutdown complete.'']"
    by (simp add: c s cleanup_def release_def cap_release_def cv2_destroyAllWindows_def
          py_print_def)
qed

theorem open_failure_cleans_up_witness:
  "main no_camera fresh_world =
     Some (BoxingStrikeVision_init 0 640 480 30,
           fresh_world\<lparr>stdout := [''Error: Cannot open camera 0'',
                                    ''BoxingStrikeVision shutdown complete.'']\<rparr>)
   \<and> fst (tracker_setup no_camera (BoxingStrikeVision_init 7 640 480 30) (fresh_world :: nat world))
       = Inl (IOError ''Cannot open camera 7'')"
proof -
  let ?U = "BoxingStrikeVision_init 7 640 480 30"
  have u: "\<not> openable no_camera (camera_id (video_stream ?U))"
    by (simp add: no_camera_def scripted_env_def)
  have "''Cannot open camera '' @ str_int (camera_id (video_stream ?U)) = ''Cannot open camera 7''"
    by (simp add: BoxingStrikeVision_init_def VideoStream_init_def str_int_7)
  with open_failure_cleans_up [of no_camera ?U "fresh_world :: nat world", THEN conjunct1] u
  have general: "fst (tracker_setup no_camera ?U (fresh_world :: nat world))
                   = Inl (IOError ''Cannot open camera 7'')"
    by simp
  let ?T = "BoxingStrikeVision_init 0 640 480 30"
  have n: "\<not> openable no_camera 0"
    "\<not> openable no_camera (camera_id (video_stream ?T))"
    by (simp_all add: no_camera_def scripted_env_def)
  have s: "tracker_setup no_camera ?T (fresh_world :: nat world) =
             (Inl (IOError ''Cannot open camera 0''),
              ?T\<lparr>video_stream := (video_stream ?T)\<lparr>cap := Some \<lparr>device = 0, is_opened = False, props = []\<rparr>\<rparr>\<rparr>,
              fresh_world)"
    using tracker_setup_fails [OF n(2), of fresh_world]
    by (simp add: BoxingStrikeVision_init_def VideoStream_init_def str_int_0)
  from open_failure_cleans_up [of no_camera ?T fresh_world] n
  have "main no_camera fresh_world =
          Some (cleanup (fst (snd (tracker_setup no_camera ?T fresh_world)))
                  (py_print ''Error: Cannot open camera 0''
                     (snd (snd (tracker_setup no_camera ?T (fresh_world :: nat world))))))"
    by simp
  then have "main no_camera fresh_world =
          Some (cleanup (?T\<lparr>video_stream := (video_stream ?T)\<lparr>cap := Some \<lparr>device = 0, is_opened = False, props = []\<rparr>\<rparr>\<rparr>)
                  (py_print ''Error: Cannot open camera 0'' (fresh_world :: nat world)))"
    by (simp only: s fst_conv snd_conv)
  then have "main no_camera fresh_world =
     Some (BoxingStrikeVision_init 0 640 480 30,
           (fresh_world :: nat world)\<lparr>stdout := [''Error: Cannot open camera 0'',
                                    ''BoxingStrikeVision shutdown complete.'']\<rparr>)"
    by (simp add: cleanup_def release_def cap_release_def cv2_destroyAllWindows_def
          py_print_def fresh_world_def BoxingStrikeVision_init_def VideoStream_init_def)
  with general show ?thesis by simp
qed

subsection \<open>Session Coordinator: the fifth read fails\<close>

text \<open>
  Claim C7. Let the first four reads succeed, none of the first four polls see the quit
  key, and the fifth read deliver no frame. Then \<open>run\<close>, on a tracker whose stream is
  started, returns without an exception after exactly five reads, four updates, four
  presented frames (those of iterations one to four) and four polls, having printed the
  failure notice and nothing else. \<open>main\<close>, when the device can be opened, returns
  after the same five reads and four frames; it has printed the start notice, the
  failure notice once and the shutdown notice of \<open>cleanup\<close> once, and leaves no handle,
  no held device and no window.
\<close>

theorem read_failure_on_fifth_iteration:
  assumes "\<forall>i<4. grab e (reads w + i) \<noteq> None" and "grab e (reads w + 4) = None"
    and "\<forall>i<4. \<not> quit_pressed e (polls w + i)"
  shows "(cap (video_stream a) = Some c \<and> is_opened c \<longrightarrow>
           (\<exists>a' w'. run e a w = Some (Inr (), a', w')
              \<and> reads w' = reads w + 5 \<and> ticks w' = ticks w + 4 \<and> polls w' = polls w + 4
              \<and> shown w' = shown w @ map (presented e a w) [0..<4]
              \<and> stdout w' = stdout w @ [''Failed to grab frame. Exiting...'']))
       \<and> (openable e 0 \<longrightarrow>
           (\<exists>t w'. main e w = Some (t, w')
              \<and> reads w' = reads w + 5 \<and> ticks w' = ticks w + 4 \<and> polls w' = polls w + 4
              \<and> shown w' = shown w @ map (presented e ready_tracker w) [0..<4]
              \<and> stdout w' = stdout w @ [''PunchTracker initialized. Press 'q' to quit.'',
                                         ''Failed to grab frame. Exiting...'',
                                         ''BoxingStrikeVision shutdown complete.'']
              \<and> cap (video_stream t) = None \<and> held w' = held w \<and> windows w' = []))"
proof (intro conjI impI)
  assume "cap (video_stream a) = Some c \<and> is_opened c"
  then have c: "running (a\<lparr>running := True\<rparr>)" "cap (video_stream (a\<lparr>running := True\<rparr>)) = Some c"
    "is_opened c" by simp_all
  from run_loop_fail_at [OF c assms(1,3,2)]
  show "\<exists>a' w'. run e a w = Some (Inr (), a', w')
              \<and> reads w' = reads w + 5 \<and> ticks w' = ticks w + 4 \<and> polls w' = polls w + 4
              \<and> shown w' = shown w @ map (presented e a w) [0..<4]
              \<and> stdout w' = stdout w @ [''Failed to grab frame. Exiting...'']"
    by (simp add: run_def after_iterations_def py_print_def presented_running)
next
  assume o: "openable e 0"
  let ?a = "ready_tracker\<lparr>running := True\<rparr>"
  let ?w = "ready_world w"
  have c: "running ?a" "cap (video_stream ?a) = Some open_capture" "is_opened open_capture"
    by (simp_all add: ready_tracker_def open_capture_def)
  have h: "\<forall>i<4. grab e (reads ?w + i) \<noteq> None" "\<forall>i<4. \<not> quit_pressed e (polls ?w + i)"
    "grab e (reads ?w + 4) = None"
    using assms by (simp_all add: ready_world_def)
  let ?a' = "fst (after_iterations e ?a ?w 4)"
  let ?w' = "py_print ''Failed to grab frame. Exiting...''
               ((snd (after_iterations e ?a ?w 4))\<lparr>reads := Suc (reads ?w + 4)\<rparr>)"
  have r: "run e ready_tracker ?w = Some (Inr (), ?a', ?w')"
    using run_loop_fail_at [OF c h] by (simp add: run_def)
  have m: "main e w = Some (cleanup ?a' ?w')"
    by (rule main_after_setup [OF o r])
  have ca: "cap (video_stream ?a') = Some open_capture"
    by (simp add: after_iterations_def ready_tracker_def)
  note cl = cleanup_fields [OF ca c(3), of ?w']
  have p: "map (presented e ?a ?w) [0..<4] = map (presented e ready_tracker w) [0..<4]"
    by (simp add: presented_running presented_ready_world)
  show "\<exists>t w'. main e w = Some (t, w')
              \<and> reads w' = reads w + 5 \<and> ticks w' = ticks w + 4 \<and> polls w' = polls w + 4
              \<and> shown w' = shown w @ map (presented e ready_tracker w) [0..<4]
              \<and> stdout w' = stdout w @ [''PunchTracker initialized. Press 'q' to quit.'',
                                         ''Failed to grab frame. Exiting...'',
                                         ''BoxingStrikeVision shutdown complete.'']
              \<and> cap (video_stream t) = None \<and> held w' = held w \<and> windows w' = []"
  proof (intro exI conjI)
    show "main e w = Some (fst (cleanup ?a' ?w'), snd (cleanup ?a' ?w'))" by (simp add: m)
    show "cap (video_stream (fst (cleanup ?a' ?w'))) = None" using cl by simp
    show "windows (snd (cleanup ?a' ?w')) = []" using cl by simp
    show "reads (snd (cleanup ?a' ?w')) = reads w + 5"
      by (simp only: cl) (simp add: py_print_def after_iterations_def ready_world_def)
    show "ticks (snd (cleanup ?a' ?w')) = ticks w + 4"
      by (simp only: cl) (simp add: py_print_def after_iterations_def ready_world_def)
    show "polls (snd (cleanup ?a' ?w')) = polls w + 4"
      by (simp only: cl) (simp add: py_print_def after_iterations_def ready_world_def)
    show "shown (snd (cleanup ?a' ?w')) = shown w @ map (presented e ready_tracker w) [0..<4]"
      by (simp only: cl) (simp add: py_print_def after_iterations_def p, simp add: ready_world_def)
    show "stdout (snd (cleanup ?a' ?w')) =
         stdout w @ [''PunchTracker initialized. Press 'q' to quit.'',
                     ''Failed to grab frame. Exiting...'',
                     ''BoxingStrikeVision shutdown complete.'']"
      by (simp only: cl) (simp add: py_print_def after_iterations_def ready_world_def)
    show "held (snd (cleanup ?a' ?w')) = held w"
      by (simp only: cl) (simp add: py_print_def after_iterations_def ready_world_def open_capture_def)
  qed
qed

theorem read_failure_on_fifth_iteration_witness:
  "(\<exists>t w'. main failing_camera fresh_world = Some (t, w')
      \<and> reads w' = 5 \<and> ticks w' = 4 \<and> polls w' = 4 \<and> length (shown w') = 4
      \<and> stdout w' = [''PunchTracker initialized. Press 'q' to quit.'',
                      ''Failed to grab frame. Exiting...'',
                      ''BoxingStrikeVision shutdown complete.'']
      \<and> cap (video_stream t) = None \<and> held w' = [] \<and> windows w' = [])
   \<and> (\<exists>a' w'. run failing_camera ready_tracker fresh_world = Some (Inr (), a', w')
      \<and> reads w' = 5 \<and> ticks w' = 4 \<and> polls w' = 4 \<and> length (shown w') = 4
      \<and> stdout w' = [''Failed to grab frame. Exiting...''])"
proof -
  let ?w = "fresh_world :: nat world"
  have h: "\<forall>i<4. grab failing_camera (reads ?w + i) \<noteq> None"
    "grab failing_camera (reads ?w + 4) = None"
    "\<forall>i<4. \<not> quit_pressed failing_camera (polls ?w + i)"
    by (simp_all add: failing_camera_def scripted_env_def fresh_world_def quit_pressed_def)
  have o: "openable failing_camera 0"
    by (simp add: failing_camera_def scripted_env_def)
  from read_failure_on_fifth_iteration [OF h, THEN conjunct2, rule_format, OF o]
  obtain t w' where "main failing_camera ?w = Some (t, w')"
    "reads w' = reads ?w + 5" "ticks w' = ticks ?w + 4" "polls w' = polls ?w + 4"
    "shown w' = shown ?w @ map (presented failing_camera ready_tracker ?w) [0..<4]"
    "stdout w' = stdout ?w @ [''PunchTracker initialized. Press 'q' to quit.'',
                               ''Failed to grab frame. Exiting...'',
                               ''BoxingStrikeVision shutdown complete.'']"
    "cap (video_stream t) = None" "held w' = held ?w" "windows w' = []"
    by blast
  then have whole: "\<exists>t w'. main failing_camera ?w = Some (t, w')
      \<and> reads w' = 5 \<and> ticks w' = 4 \<and> polls w' = 4 \<and> length (shown w') = 4
      \<and> stdout w' = [''PunchTracker initialized. Press 'q' to quit.'',
                      ''Failed to grab frame. Exiting...'',
                      ''BoxingStrikeVision shutdown complete.'']
      \<and> cap (video_stream t) = None \<and> held w' = [] \<and> windows w' = []"
    by (simp add: fresh_world_def)
  have c: "cap (video_stream ready_tracker) = Some open_capture \<and> is_opened open_capture"
    by (simp add: ready_tracker_def open_capture_def)
  from read_failure_on_fifth_iteration [OF h, THEN conjunct1, rule_format, OF c]
  obtain a' v' where "run failing_camera ready_tracker ?w = Some (Inr (), a', v')"
    "reads v' = reads ?w + 5" "ticks v' = ticks ?w + 4" "polls v' = polls ?w + 4"
    "shown v' = shown ?w @ map (presented failing_camera ready_tracker ?w) [0..<4]"
    "stdout v' = stdout ?w @ [''Failed to grab frame. Exiting...'']"
    by blast
  then have "\<exists>a' w'. run failing_camera ready_tracker ?w = Some (Inr (), a', w')
      \<and> reads w' = 5 \<and> ticks w' = 4 \<and> polls w' = 4 \<and> length (shown w') = 4
      \<and> stdout w' = [''Failed to grab frame. Exiting...'']"
    by (simp add: fresh_world_def)
  with whole show ?thesis by simp
qed

subsection \<open>Session Coordinator: the quit key on the tenth iteration\<close>



subsection \<open>Rate Monitor: the rate is never negative\<close>

text \<open>
  Claim C9. The rate of a fresh counter is zero, and every \<open>update\<close> either keeps
  the rate or assigns \<open>1 / d\<close> with \<open>d\<close> strictly positive. So after any number of
  updates, under any clock, the stored rate is not negative; the integer truncation
  that \<open>draw\<close> applies to it is its floor, and the text \<open>draw\<close> hands to the
  rasteriser is \<open>FPS:\<close> followed by the floor of the rate.
\<close>

theorem rate_never_negative:
  assumes "update_n e n FPSCounter_init w = (c, w')"
  shows "fps FPSCounter_init = 0
       \<and> 0 \<le> fps c
       \<and> py_int (fps c) = \<lfloor>fps c\<rfloor>
       \<and> draw e c frame =
           cv2_putText e frame (''FPS: '' @ str_int \<lfloor>fps c\<rfloor>) (10, 30) FONT_HERSHEY_SIMPLEX 1 (0, 255, 0) 2
       \<and> (fps (fst (snd (update e c v))) = fps c
            \<or> 0 < clock e (ticks v) - prev_time c
              \<and> fps (fst (snd (update e c v))) = 1 / (clock e (ticks v) - prev_time c))"
proof -
  have "0 \<le> fps FPSCounter_init" by (simp add: FPSCounter_init_def)
  from update_n_keeps_nonneg [OF this, of e n w] assms have nn: "0 \<le> fps c" by simp
  then have "py_int (fps c) = \<lfloor>fps c\<rfloor>" by (simp add: py_int_def)
  moreover have "fps (fst (snd (update e c v))) = fps c
            \<or> 0 < clock e (ticks v) - prev_time c
              \<and> fps (fst (snd (update e c v))) = 1 / (clock e (ticks v) - prev_time c)"
    by (simp add: update_def time_time_def Let_def)
  ultimately show ?thesis
    using nn by (simp add: FPSCounter_init_def draw_def fps_text_def)
qed

theorem rate_never_negative_witness:
  "update_n jittery_clock 4 FPSCounter_init fresh_world =
     (\<lparr>prev_time = 99 + 2 / 5, current_time = 99 + 2 / 5, fps = 5 / 2\<rparr>, fresh_world\<lparr>ticks := 4\<rparr>)
   \<and> py_int (5 / 2) = 2
   \<and> draw jittery_clock \<lparr>prev_time = 99 + 2 / 5, current_time = 99 + 2 / 5, fps = 5 / 2\<rparr> [ [7, 8]]
       = cv2_putText jittery_clock [ [7, 8]] ''FPS: 2'' (10, 30) FONT_HERSHEY_SIMPLEX 1 (0, 255, 0) 2"
proof -
  let ?c = "\<lparr>prev_time = 99 + 2 / 5, current_time = 99 + 2 / 5, fps = 5 / 2\<rparr>"
  have u: "update_n jittery_clock 4 FPSCounter_init (fresh_world :: nat world) = (?c, fresh_world\<lparr>ticks := 4\<rparr>)"
    by (simp add: eval_nat_numeral update_def time_time_def Let_def jittery_clock_def
          scripted_env_def fresh_world_def FPSCounter_init_def)
  have f: "\<lfloor>5 / 2 :: real\<rfloor> = 2" by simp
  from rate_never_negative [OF u, of "[ [7, 8]]"] u show ?thesis
    by (simp add: f str_int_2)
qed

subsection \<open>Capture Source: \<open>read\<close> after \<open>release\<close>\<close>

text \<open>
  Claim C10. \<open>release\<close> on a started stream gives back the instance as it was
  constructed (same configuration, handle unset), and a following \<open>read\<close> raises the
  IllegalState condition, the very outcome of \<open>read\<close> on an instance on which
  \<open>start\<close> was never called.
\<close>

theorem release_then_read:
  assumes "cap s = Some c" and "release s w = (s', w')"
  shows "s' = VideoStream_init (camera_id s) (width s) (height s) (stream_fps s)
       \<and> read e s' w' =
           (Inl (RuntimeError ''Video stream not started. Call start() first.''), s', w')
       \<and> fst (read e s' w') =
           fst (read e (VideoStream_init (camera_id s) (width s) (height s) (stream_fps s)) w0)"
  using assms by (auto simp: release_def read_def VideoStream_init_def split: prod.splits)

theorem release_then_read_witness:
  "release (default_stream\<lparr>cap := Some open_capture\<rparr>) ((fresh_world :: nat world)\<lparr>held := [0]\<rparr>)
     = (default_stream, fresh_world)
   \<and> read one_frame_camera default_stream fresh_world =
       (Inl (RuntimeError ''Video stream not started. Call start() first.''),
        default_stream, fresh_world)"
proof -
  let ?s = "default_stream\<lparr>cap := Some open_capture\<rparr>"
  let ?w = "(fresh_world :: nat world)\<lparr>held := [0]\<rparr>"
  have c: "cap ?s = Some open_capture" by simp
  have r: "release ?s ?w = (default_stream, fresh_world)"
    by (simp add: release_def cap_release_def open_capture_def default_stream_def
          VideoStream_init_def fresh_world_def)
  from release_then_read [OF c r, of one_frame_camera] r show ?thesis by simp
qed

end
